theory Spec2Isabelle
  imports
    Main
    "HOL-Library.Char_ord"
    "HOL-Library.List_Lexorder"
    "HOL-Library.Multiset"
    "HOL-Library.Word"
begin

section \<open>The ControlNet adapter of ADetailer (controlnet\_ext.py)\<close>

text \<open>
  A shallow embedding of \<^verbatim>\<open>src/controlnet_ext/controlnet_ext.py\<close>.

  The module adapts to a neighbouring extension (sd-webui-controlnet) whose code is not
  part of this repository. Whatever the module obtains from the host or from the neighbour
  is a parameter of the model: the dynamic import, the neighbour's \<^verbatim>\<open>get_models\<close> and
  \<^verbatim>\<open>update_cn_script_in_processing\<close>, the file system and the host's hashing utility.
  Exceptions are values of the type \<open>error\<close>; mutation of the request object and of the
  adapter object is explicit state passing.
\<close>

subsection \<open>Python values and exceptions\<close>

text \<open>
  Strings are \<open>string\<close> (lists of bytes, UTF-8). Python's \<^verbatim>\<open>a in b\<close> on two strings is
  the test for a contiguous substring; on UTF-8 it agrees with the test on code points.
\<close>

fun startswith :: "string \<Rightarrow> string \<Rightarrow> bool" where
  "startswith s [] = True"
| "startswith [] (c # pre) = False"
| "startswith (d # s) (c # pre) = (d = c \<and> startswith s pre)"

text \<open>\<open>str_in sub s\<close> is the Python expression \<^verbatim>\<open>sub in s\<close>.\<close>

fun str_in :: "string \<Rightarrow> string \<Rightarrow> bool" where
  "str_in sub [] = (sub = [])"
| "str_in sub (c # s) = (startswith (c # s) sub \<or> str_in sub s)"

text \<open>
  The exceptions that play a role. \<open>RuntimeError msg cause\<close> is
  \<^verbatim>\<open>raise RuntimeError(msg) from cause\<close>. The string of an \<open>AttributeError\<close> is what
  \<^verbatim>\<open>str(e)\<close> returns.
\<close>

datatype error =
    AttributeError string
  | TypeError string
  | KeyError string
  | ImportError string
  | RuntimeError string error
  | OtherError string

text \<open>
  The dynamically typed values that reach this module: \<^verbatim>\<open>None\<close>, integers (and other
  scalars a script argument may be), strings, and dicts with string keys (as association
  lists, looked up with \<open>map_of\<close>).
\<close>

datatype pyval =
    PyNone
  | PyInt int
  | PyStr string
  | PyDict "(string \<times> pyval) list"

definition quoted :: "string \<Rightarrow> string" where
  "quoted s = CHR 0x27 # s @ [CHR 0x27]"

text \<open>\<open>getitem v k\<close> is the subscription \<^verbatim>\<open>v[k]\<close> with a string key.\<close>

fun getitem :: "pyval \<Rightarrow> string \<Rightarrow> error + pyval" where
  "getitem (PyDict d) k =
     (case map_of d k of Some v \<Rightarrow> Inr v | None \<Rightarrow> Inl (KeyError (quoted k)))"
| "getitem PyNone k = Inl (TypeError (quoted ''NoneType'' @ '' object is not subscriptable''))"
| "getitem (PyInt i) k = Inl (TypeError (quoted ''int'' @ '' object is not subscriptable''))"
| "getitem (PyStr s) k = Inl (TypeError ''string indices must be integers'')"

text \<open>\<open>dict_get d k\<close> is \<^verbatim>\<open>d.get(k)\<close>: the value, or \<^verbatim>\<open>None\<close> for a missing key.\<close>

definition dict_get :: "(string \<times> pyval) list \<Rightarrow> string \<Rightarrow> pyval" where
  "dict_get d k = (case map_of d k of Some v \<Rightarrow> v | None \<Rightarrow> PyNone)"

subsection \<open>The neighbour's data: conditioning units and the request\<close>

text \<open>
  A Python float is kept as its IEEE-754 binary64 bit pattern: the module stores the
  three floats it is given in the unit and computes nothing with them.
\<close>

type_synonym pyfloat = "64 word"

text \<open>
  The neighbour's enum \<^verbatim>\<open>ControlMode\<close>; the module only names its member
  \<^verbatim>\<open>BALANCED\<close>.
\<close>

datatype control_mode = BALANCED | PROMPT | CONTROL

text \<open>
  The neighbour's \<^verbatim>\<open>ControlNetUnit\<close>, with the fields this module sets or reads
  (the keyword arguments of lines 100 to 110, prefixed with \<open>unit_\<close>).
\<close>

record cn_unit =
  unit_model :: string
  unit_weight :: pyfloat
  unit_control_mode :: control_mode
  unit_module :: "string option"
  unit_guidance_start :: pyfloat
  unit_guidance_end :: pyfloat
  unit_pixel_perfect :: bool
  unit_image :: pyval
  unit_inpaint_crop_input_image :: bool

text \<open>
  One element of \<^verbatim>\<open>p.script_args\<close>: a native unit object
  (\<^verbatim>\<open>isinstance(arg, ControlNetUnit)\<close>) or any other value; the legacy dict-shaped
  argument is \<open>ValArg (PyDict d)\<close>.
\<close>

datatype script_arg = UnitArg cn_unit | ValArg pyval

text \<open>The request object \<^verbatim>\<open>p\<close>; its other attributes are the record's extension.\<close>

record processing =
  script_args :: "script_arg list"

text \<open>
  The members of the imported module \<^verbatim>\<open>external_code\<close> that are functions of the
  neighbour. \<^verbatim>\<open>update_cn_script_in_processing\<close> mutates the request and may raise, so
  it returns the request as it leaves it together with the exception, if any.
\<close>

record 'p external_code =
  get_models :: "error + string list"
  update_cn_script_in_processing :: "'p \<Rightarrow> cn_unit list \<Rightarrow> error option \<times> 'p"

text \<open>The calls made into the neighbour by \<^verbatim>\<open>update_scripts_args\<close>, in order.\<close>

datatype cn_call =
    Call_ControlNetUnit cn_unit
  | Call_update_cn_script_in_processing "cn_unit list"

subsection \<open>The keyword table (lines 45 to 54)\<close>

text \<open>A Python dict iterates in insertion order, so the table is an association list.\<close>

definition cn_model_module :: "(string \<times> string) list" where
  "cn_model_module =
     [(''inpaint'', ''inpaint_global_harmonious''),
      (''scribble'', ''t2ia_sketch_pidi''),
      (''lineart'', ''lineart_coarse''),
      (''openpose'', ''openpose_full''),
      (''tile'', ''tile_resample''),
      (''depth'', ''depth_midas''),
      (''ip-adapter-faceid-plusv2'', ''ip-adapter_face_id_plus'')]"

text \<open>
  \<^verbatim>\<open>cn_model_regex.search(s)\<close>: the pattern is the keys joined with \<^verbatim>\<open>|\<close>, and no key
  holds a character that is special in a regular expression, so the search succeeds
  exactly when some key occurs in \<open>s\<close>.
\<close>

definition cn_model_regex_search :: "string \<Rightarrow> bool" where
  "cn_model_regex_search s = list_ex (\<lambda>k. str_in k s) (map fst cn_model_module)"

subsection \<open>Discovery (lines 22 to 36)\<close>

text \<open>
  A path is the list of its components (\<^verbatim>\<open>Path.parts\<close>); how a string is split into
  components is pathlib's business and comes with the host as \<open>Path_of\<close>.
\<close>

type_synonym path = "string list"


record discovery =
  controlnet_exists :: bool
  controlnet_path :: "path option"
  cn_base_path :: string




subsection \<open>The adapter object (lines 57 to 131)\<close>

record 'p ControlNetExt =
  cn_models :: "string list"
  cn_available :: bool
  external_cn :: "'p external_code option"

text \<open>\<^verbatim>\<open>__init__\<close>\<close>

definition ControlNetExt_init :: "'p ControlNetExt" where
  "ControlNetExt_init = \<lparr>cn_models = [''None''], cn_available = False, external_cn = None\<rparr>"

text \<open>
  \<^verbatim>\<open>init_controlnet\<close>. \<open>import_module\<close> is \<^verbatim>\<open>importlib.import_module\<close> in the running
  host: the module object, or the exception of a failed import. The attribute is assigned
  only once the import has returned.
\<close>

definition init_controlnet ::
  "(string \<Rightarrow> string \<Rightarrow> error + 'p external_code) \<Rightarrow> string \<Rightarrow> 'p ControlNetExt
     \<Rightarrow> error option \<times> 'p ControlNetExt" where
  "init_controlnet import_module base self =
     (let import_path = base @ ''.scripts.external_code'' in
      case import_module import_path ''external_code'' of
        Inl e \<Rightarrow> (Some e, self)
      | Inr m \<Rightarrow>
          (let self1 = self\<lparr>external_cn := Some m\<rparr>;
               self2 = self1\<lparr>cn_available := True\<rparr>
           in case get_models m of
                Inl e \<Rightarrow> (Some e, self2)
              | Inr models \<Rightarrow>
                  (None, self2\<lparr>cn_models := cn_models self2 @ filter cn_model_regex_search models\<rparr>)))"

text \<open>
  Reading an attribute of \<^verbatim>\<open>self.external_cn\<close>: on \<^verbatim>\<open>None\<close> Python raises
  \<^verbatim>\<open>AttributeError\<close>.
\<close>

definition none_has_no_attribute :: "string \<Rightarrow> error" where
  "none_has_no_attribute a =
     AttributeError (quoted ''NoneType'' @ '' object has no attribute '' @ quoted a)"

definition face_id_module :: string where
  "face_id_module = ''ip-adapter_face_id_plus''"

text \<open>
  \<^verbatim>\<open>extract_face_id_from_controlnet\<close> (lines 121 to 131). Each round of the loop first
  reads \<^verbatim>\<open>self.external_cn.ControlNetUnit\<close> for the \<^verbatim>\<open>isinstance\<close> test.
\<close>

fun extract_face_id_from_controlnet ::
  "'p ControlNetExt \<Rightarrow> script_arg list \<Rightarrow> error + pyval" where
  "extract_face_id_from_controlnet self [] = Inr PyNone"
| "extract_face_id_from_controlnet self (arg # rest) =
     (case external_cn self of
        None \<Rightarrow> Inl (none_has_no_attribute ''ControlNetUnit'')
      | Some cn \<Rightarrow>
          (case arg of
             UnitArg u \<Rightarrow>
               if unit_module u = Some face_id_module then getitem (unit_image u) ''image''
               else extract_face_id_from_controlnet self rest
           | ValArg (PyDict d) \<Rightarrow>
               if dict_get d ''module'' = PyStr face_id_module
                  \<and> dict_get d ''input_image'' \<noteq> PyNone
               then getitem (PyDict d) ''input_image''
               else extract_face_id_from_controlnet self rest
           | ValArg _ \<Rightarrow> extract_face_id_from_controlnet self rest))"

text \<open>Lines 84 to 90: the \<^verbatim>\<open>for ... else\<close> over the table, and the test before it.\<close>

fun scan_table :: "(string \<times> string) list \<Rightarrow> string \<Rightarrow> string option" where
  "scan_table [] model = None"
| "scan_table ((m, v) # items) model =
     (if str_in m model then Some v else scan_table items model)"

definition resolve_module :: "string \<Rightarrow> string option \<Rightarrow> string option" where
  "resolve_module model module =
     (if module = None \<or> module = Some ''None'' then scan_table cn_model_module model
      else module)"

definition webui_too_old_msg :: string where
  "webui_too_old_msg =
     ''[-] Adetailer: ControlNet option not available in WEBUI version lower than 1.6.0 due to updates in ControlNet''"

text \<open>
  Lines 92 to 97: the image and the crop flag of the unit, or the exception of
  \<^verbatim>\<open>extract_face_id_from_controlnet\<close>, which is called twice as in the source.
\<close>

definition choose_image ::
  "'p ControlNetExt \<Rightarrow> script_arg list \<Rightarrow> string option \<Rightarrow> pyval \<Rightarrow> error + (pyval \<times> bool)" where
  "choose_image self args module input_image =
     (let inpaint_crop_input_image = (input_image = PyNone) in
      if module = Some face_id_module \<and> input_image = PyNone then
        (case extract_face_id_from_controlnet self args of
           Inl e \<Rightarrow> Inl e
         | Inr found \<Rightarrow>
             if found \<noteq> PyNone then
               (case extract_face_id_from_controlnet self args of
                  Inl e \<Rightarrow> Inl e
                | Inr img \<Rightarrow> Inr (img, False))
             else Inr (input_image, inpaint_crop_input_image))
      else Inr (input_image, inpaint_crop_input_image))"

text \<open>Lines 113 to 119: what the \<^verbatim>\<open>try\<close> statement makes of the merge call's outcome.\<close>

fun translate_error :: "error option \<Rightarrow> error option" where
  "translate_error None = None"
| "translate_error (Some (AttributeError s)) =
     (if \<not> str_in ''script_args_value'' s then Some (AttributeError s)
      else Some (RuntimeError webui_too_old_msg (AttributeError s)))"
| "translate_error (Some e) = Some e"

text \<open>
  \<^verbatim>\<open>update_scripts_args\<close> (lines 71 to 119). The result is the exception raised, if
  any, the request as the call leaves it, and the calls made into the neighbour.
\<close>

definition update_scripts_args ::
  "'z processing_scheme ControlNetExt \<Rightarrow> 'z processing_scheme \<Rightarrow> string \<Rightarrow> string option
     \<Rightarrow> pyfloat \<Rightarrow> pyfloat \<Rightarrow> pyfloat \<Rightarrow> pyval
     \<Rightarrow> error option \<times> 'z processing_scheme \<times> cn_call list" where
  "update_scripts_args self p model module weight guidance_start guidance_end input_image =
     (if \<not> cn_available self \<or> model = ''None'' then (None, p, [])
      else
        let module1 = resolve_module model module in
        case choose_image self (script_args p) module1 input_image of
          Inl e \<Rightarrow> (Some e, p, [])
        | Inr (img, inpaint_crop_input_image) \<Rightarrow>
            (case external_cn self of
               None \<Rightarrow> (Some (none_has_no_attribute ''ControlNetUnit''), p, [])
             | Some cn \<Rightarrow>
                 let cn_units =
                       [\<lparr>unit_model = model,
                         unit_weight = weight,
                         unit_control_mode = BALANCED,
                         unit_module = module1,
                         unit_guidance_start = guidance_start,
                         unit_guidance_end = guidance_end,
                         unit_pixel_perfect = True,
                         unit_image = img,
                         unit_inpaint_crop_input_image = inpaint_crop_input_image\<rparr>];
                     (raised, p1) = update_cn_script_in_processing cn p cn_units
                 in (translate_error raised, p1,
                     map Call_ControlNetUnit cn_units
                       @ [Call_update_cn_script_in_processing cn_units])))"

subsection \<open>The model catalog scanner (lines 134 to 190)\<close>

text \<open>
  What the scanner takes from the host: the models root, the settings store
  \<^verbatim>\<open>shared.opts.data\<close> (the two string-valued keys it reads), the command-line option
  \<^verbatim>\<open>controlnet_dir\<close> (\<open>None\<close> when absent or unset), pathlib's parsing of a string, the
  file system and \<^verbatim>\<open>sd_models.model_hash\<close>. \<open>rglob h base\<close> is \<^verbatim>\<open>base.rglob("*")\<close> in
  the order the traversal yields it. \<open>str_lower h\<close> is \<^verbatim>\<open>str.lower\<close> of the running
  interpreter, with its Unicode case mapping: the scanner applies it and knows nothing
  more of it.
\<close>

record host =
  models_path :: string
  opts_data :: "(string \<times> string) list"
  controlnet_dir :: "string option"
  Path_of :: "string \<Rightarrow> path"
  path_exists :: "path \<Rightarrow> bool"
  rglob :: "path \<Rightarrow> path list"
  is_file :: "path \<Rightarrow> bool"
  model_hash :: "path \<Rightarrow> string"
  str_lower :: "string \<Rightarrow> string"

text \<open>The accesses to the file system, logged in the order the scanner makes them.\<close>

datatype fs_access = Exists path | Rglob path | IsFile path | ModelHash path

text \<open>
  pathlib's \<^verbatim>\<open>name\<close>, \<^verbatim>\<open>suffix\<close> and \<^verbatim>\<open>stem\<close>: the final component, and its split at
  the last dot, provided that dot is neither the first nor the last character
  (\<^verbatim>\<open>i = name.rfind('.')\<close>, \<^verbatim>\<open>0 < i < len(name) - 1\<close>).
\<close>

definition path_name :: "path \<Rightarrow> string" where
  "path_name p = (if p = [] then [] else last p)"

definition rfind :: "char \<Rightarrow> string \<Rightarrow> nat option" where
  "rfind c s =
     (if c \<in> set s then Some (length s - 1 - length (takeWhile (\<lambda>x. x \<noteq> c) (rev s)))
      else None)"

definition name_suffix :: "string \<Rightarrow> string" where
  "name_suffix name =
     (case rfind CHR ''.'' name of
        None \<Rightarrow> []
      | Some i \<Rightarrow> if 0 < i \<and> i + 1 < length name then drop i name else [])"

definition name_stem :: "string \<Rightarrow> string" where
  "name_stem name =
     (case rfind CHR ''.'' name of
        None \<Rightarrow> name
      | Some i \<Rightarrow> if 0 < i \<and> i + 1 < length name then take i name else name)"

definition path_suffix :: "path \<Rightarrow> string" where
  "path_suffix p = name_suffix (path_name p)"

definition path_stem :: "path \<Rightarrow> string" where
  "path_stem p = name_stem (path_name p)"

text \<open>\<^verbatim>\<open>str.strip(" ")\<close>: the spaces at both ends are dropped.\<close>

definition strip_spaces :: "string \<Rightarrow> string" where
  "strip_spaces s =
     rev (dropWhile (\<lambda>c. c = CHR '' '') (rev (dropWhile (\<lambda>c. c = CHR '' '') s)))"

definition opts_get :: "host \<Rightarrow> string \<Rightarrow> string \<Rightarrow> string" where
  "opts_get h k dflt = (case map_of (opts_data h) k of Some v \<Rightarrow> v | None \<Rightarrow> dflt)"

text \<open>
  \<^verbatim>\<open>get_cn_model_dirs\<close>: a \<^verbatim>\<open>Path\<close> object is always true, a string is true when it
  is not empty.
\<close>

definition get_cn_model_dirs :: "discovery \<Rightarrow> host \<Rightarrow> path list" where
  "get_cn_model_dirs disc h =
     (let cn_model_dir = Path_of h (models_path h) @ [''ControlNet''];
          cn_model_dir_old =
            (case controlnet_path disc of Some cp \<Rightarrow> Some (cp @ [''models'']) | None \<Rightarrow> None);
          ext_dir1 = opts_get h ''control_net_models_path'' [];
          ext_dir2 = (case controlnet_dir h of Some d \<Rightarrow> d | None \<Rightarrow> [])
      in [cn_model_dir]
         @ (case cn_model_dir_old of Some d \<Rightarrow> [d] | None \<Rightarrow> [])
         @ (if ext_dir1 \<noteq> [] then [Path_of h ext_dir1] else [])
         @ (if ext_dir2 \<noteq> [] then [Path_of h ext_dir2] else []))"

definition cn_model_exts :: "string list" where
  "cn_model_exts = [''.pt'', ''.pth'', ''.ckpt'', ''.safetensors'', ''.bin'']"

text \<open>
  The inner loop (lines 168 to 176) over one directory's listing, and the outer loop
  (lines 164 to 176) over the directories. The accumulator is \<^verbatim>\<open>model_paths\<close> and the
  access log.
\<close>

fun scan_files ::
  "host \<Rightarrow> string \<Rightarrow> path list \<Rightarrow> path list \<times> fs_access list \<Rightarrow> path list \<times> fs_access list" where
  "scan_files h name_filter [] acc = acc"
| "scan_files h name_filter (p # ps) (model_paths, log) =
     (if is_file h p \<and> path_suffix p \<in> set cn_model_exts \<and> cn_model_regex_search (path_name p)
      then
        (if name_filter \<noteq> [] \<and> \<not> str_in name_filter (str_lower h (path_name p))
         then scan_files h name_filter ps (model_paths, log @ [IsFile p])
         else scan_files h name_filter ps (model_paths @ [p], log @ [IsFile p]))
      else scan_files h name_filter ps (model_paths, log @ [IsFile p]))"

fun scan_dirs ::
  "host \<Rightarrow> string \<Rightarrow> path list \<Rightarrow> path list \<times> fs_access list \<Rightarrow> path list \<times> fs_access list" where
  "scan_dirs h name_filter [] acc = acc"
| "scan_dirs h name_filter (base # dirs) (model_paths, log) =
     (if \<not> path_exists h base
      then scan_dirs h name_filter dirs (model_paths, log @ [Exists base])
      else scan_dirs h name_filter dirs
             (scan_files h name_filter (rglob h base)
                (model_paths, log @ [Exists base, Rglob base])))"

text \<open>Lines 179 to 183: hashing and formatting, in the sorted order.\<close>

definition format_name :: "host \<Rightarrow> path \<Rightarrow> string" where
  "format_name h p = path_stem p @ '' ['' @ model_hash h p @ '']''"

fun hash_models ::
  "host \<Rightarrow> path list \<Rightarrow> string list \<times> fs_access list \<Rightarrow> string list \<times> fs_access list" where
  "hash_models h [] acc = acc"
| "hash_models h (p # ps) (models, log) =
     hash_models h ps (models @ [format_name h p], log @ [ModelHash p])"

text \<open>
  \<open>scan_model_paths\<close> is \<^verbatim>\<open>model_paths\<close> after line 177 (Python's sort is stable, as
  \<open>sort_key\<close> is), with the accesses made so far.
\<close>

definition name_filter_of :: "host \<Rightarrow> string" where
  "name_filter_of h =
     str_lower h (strip_spaces (opts_get h ''control_net_models_name_filter'' []))"

definition scan_model_paths :: "host \<Rightarrow> path list \<Rightarrow> path list \<times> fs_access list" where
  "scan_model_paths h dirs =
     (let (model_paths, log) = scan_dirs h (name_filter_of h) dirs ([], [])
      in (sort_key path_name model_paths, log))"

text \<open>The body of \<^verbatim>\<open>_get_cn_models\<close>: the catalog and the accesses made.\<close>

definition get_cn_models_body :: "discovery \<Rightarrow> host \<Rightarrow> string list \<times> fs_access list" where
  "get_cn_models_body disc h =
     (let dirs = get_cn_model_dirs disc h;
          (model_paths, log) = scan_model_paths h dirs
      in hash_models h model_paths ([], log))"

text \<open>
  \<^verbatim>\<open>_get_cn_models\<close> as decorated with \<^verbatim>\<open>functools.lru_cache\<close>: the function has no
  parameter, so the cache has one slot, filled by the first call that returns and never
  evicted. The result is the catalog, the accesses made by this call, and the cache.
\<close>

definition get_cn_models_cached ::
  "discovery \<Rightarrow> host \<Rightarrow> string list option \<Rightarrow> string list \<times> fs_access list \<times> string list option" where
  "get_cn_models_cached disc h cache =
     (case cache of
        Some models \<Rightarrow> (models, [], cache)
      | None \<Rightarrow> (let (models, log) = get_cn_models_body disc h in (models, log, Some models)))"


subsection \<open>Notions used to state the properties\<close>

text \<open>
  The entries the scan traverses: the listings of the directories that exist, in the
  order of the directories.
\<close>

definition listing :: "host \<Rightarrow> path list \<Rightarrow> path list" where
  "listing h dirs = concat (map (rglob h) (filter (path_exists h) dirs))"

text \<open>
  The files the catalog is to keep, in the words of the specification: a file, with a
  whitelisted extension, whose name matches the keyword pattern, and which passes the
  name filter when there is one.
\<close>

definition kept :: "host \<Rightarrow> path \<Rightarrow> bool" where
  "kept h p =
     (is_file h p
      \<and> path_suffix p \<in> set cn_model_exts
      \<and> cn_model_regex_search (path_name p)
      \<and> (name_filter_of h = [] \<or> str_in (name_filter_of h) (str_lower h (path_name p))))"

text \<open>The accesses a scan of the directories makes before it sorts.\<close>

definition scan_log :: "host \<Rightarrow> path list \<Rightarrow> fs_access list" where
  "scan_log h dirs =
     concat (map (\<lambda>base. if path_exists h base
                          then Exists base # Rglob base # map IsFile (rglob h base)
                          else [Exists base]) dirs)"

text \<open>
  The methods of the adapter object, as operations on its state. Only
  \<^verbatim>\<open>init_controlnet\<close> assigns to attributes of \<^verbatim>\<open>self\<close>.
\<close>

datatype 'p adapter_op =
    Op_init_controlnet
  | Op_update_scripts_args 'p string "string option" pyfloat pyfloat pyfloat pyval
  | Op_extract_face_id_from_controlnet "script_arg list"

fun apply_op ::
  "(string \<Rightarrow> string \<Rightarrow> error + 'p external_code) \<Rightarrow> string \<Rightarrow> 'p ControlNetExt
     \<Rightarrow> 'p adapter_op \<Rightarrow> 'p ControlNetExt" where
  "apply_op import_module base self Op_init_controlnet =
     snd (init_controlnet import_module base self)"
| "apply_op import_module base self (Op_update_scripts_args p model module w gs ge img) = self"
| "apply_op import_module base self (Op_extract_face_id_from_controlnet args) = self"

definition handle_invariant :: "'p ControlNetExt \<Rightarrow> bool" where
  "handle_invariant self = (cn_available self \<longrightarrow> external_cn self \<noteq> None)"

text \<open>
  A sequence of calls of the memoized scanner during one process: each call sees the
  discovery result and the host as they are at that time, and the cache left by the call
  before it. The result lists, per call, the catalog returned and the accesses made.
\<close>

fun calls_cached ::
  "(discovery \<times> host) list \<Rightarrow> string list option \<Rightarrow> (string list \<times> fs_access list) list" where
  "calls_cached [] cache = []"
| "calls_cached ((disc, h) # rest) cache =
     (case get_cn_models_cached disc h cache of
        (models, log, cache1) \<Rightarrow> (models, log) # calls_cached rest cache1)"

text \<open>
  The image a legacy dict-shaped argument offers: the dict names the face-identity module
  and has an input image.
\<close>

fun legacy_face_image :: "script_arg \<Rightarrow> pyval option" where
  "legacy_face_image (ValArg (PyDict d)) =
     (if dict_get d ''module'' = PyStr face_id_module \<and> dict_get d ''input_image'' \<noteq> PyNone
      then Some (dict_get d ''input_image'') else None)"
| "legacy_face_image arg = None"

subsection \<open>Concrete inputs\<close>

text \<open>A neighbour whose merge function appends the units to the script arguments.\<close>

definition appending_cn :: "processing external_code" where
  "appending_cn =
     \<lparr>get_models = Inr [''control_v11f1p_sd15_depth'', ''unrelated''],
      update_cn_script_in_processing =
        (\<lambda>p units. (None, p\<lparr>script_args := script_args p @ map UnitArg units\<rparr>))\<rparr>"

text \<open>A neighbour of an older version, whose merge function fails on the request.\<close>

definition old_cn :: "processing external_code" where
  "old_cn =
     \<lparr>get_models = Inr [],
      update_cn_script_in_processing =
        (\<lambda>p units. (Some (AttributeError
           (quoted ''StableDiffusionProcessingImg2Img'' @ '' object has no attribute ''
              @ quoted ''script_args_value'')), p))\<rparr>"

definition ready_ext :: "processing ControlNetExt" where
  "ready_ext = \<lparr>cn_models = [''None''], cn_available = True, external_cn = Some appending_cn\<rparr>"

definition old_ext :: "processing ControlNetExt" where
  "old_ext = \<lparr>cn_models = [''None''], cn_available = True, external_cn = Some old_cn\<rparr>"

text \<open>
  A native unit with the face-identity module selected and no image given, and a legacy
  dict-shaped argument with the same module and an image.
\<close>

definition face_unit_no_image :: cn_unit where
  "face_unit_no_image =
     \<lparr>unit_model = ''ip-adapter-faceid-plusv2_sd15'',
      unit_weight = 0x3FF0000000000000,
      unit_control_mode = BALANCED,
      unit_module = Some ''ip-adapter_face_id_plus'',
      unit_guidance_start = 0,
      unit_guidance_end = 0x3FF0000000000000,
      unit_pixel_perfect = False,
      unit_image = PyNone,
      unit_inpaint_crop_input_image = False\<rparr>"

definition face_dict :: pyval where
  "face_dict =
     PyDict [(''module'', PyStr ''ip-adapter_face_id_plus''),
             (''input_image'', PyStr ''face.png'')]"

text \<open>The unit built for a depth model when neither a module nor an image is given.\<close>

definition depth_unit :: cn_unit where
  "depth_unit =
     \<lparr>unit_model = ''control_v11f1p_sd15_depth'',
      unit_weight = 0x3FF0000000000000,
      unit_control_mode = BALANCED,
      unit_module = Some ''depth_midas'',
      unit_guidance_start = 0,
      unit_guidance_end = 0x3FF0000000000000,
      unit_pixel_perfect = True,
      unit_image = PyNone,
      unit_inpaint_crop_input_image = True\<rparr>"



definition working_import :: "string \<Rightarrow> string \<Rightarrow> error + processing external_code" where
  "working_import name package =
     (if name = ''extensions.sd-webui-controlnet.scripts.external_code'' then Inr appending_cn
      else Inl (ImportError (''No module named '' @ quoted name)))"

text \<open>
  What \<^verbatim>\<open>str.lower\<close> does to a string of ASCII characters: the letters A to Z become
  a to z. The concrete hosts below hold ASCII names only.
\<close>

definition ascii_lower_char :: "char \<Rightarrow> char" where
  "ascii_lower_char c =
     (let n = (of_char c :: nat) in if 65 \<le> n \<and> n \<le> 90 then char_of (n + 32) else c)"

definition ascii_lower :: "string \<Rightarrow> string" where
  "ascii_lower s = map ascii_lower_char s"

text \<open>
  A host over a small in-memory disk: \<open>files\<close> lists the files with their hashes; the
  two configurable directories are \<open>d1\<close> (the setting) and \<open>d2\<close> (the command-line
  option). No name filter is set.
\<close>

definition disk_host :: "string \<Rightarrow> string \<Rightarrow> (path \<times> string) list \<Rightarrow> host" where
  "disk_host d1 d2 files =
     \<lparr>models_path = ''models'',
      opts_data = [(''control_net_models_path'', d1)],
      controlnet_dir = Some d2,
      Path_of = (\<lambda>s. [s]),
      path_exists = (\<lambda>p. list_ex (\<lambda>f. take (length p) f = p \<and> f \<noteq> p) (map fst files)),
      rglob = (\<lambda>p. filter (\<lambda>f. take (length p) f = p \<and> f \<noteq> p) (map fst files)),
      is_file = (\<lambda>p. p \<in> set (map fst files)),
      model_hash = (\<lambda>p. case map_of files p of Some x \<Rightarrow> x | None \<Rightarrow> ''NOFILE''),
      str_lower = ascii_lower\<rparr>"

text \<open>The same host with the name filter of the settings set to \<open>nf\<close>.\<close>

definition with_name_filter :: "string \<Rightarrow> host \<Rightarrow> host" where
  "with_name_filter nf h =
     h\<lparr>opts_data := (''control_net_models_name_filter'', nf) # opts_data h\<rparr>"

text \<open>
  Three model files, of which the name filter \<^verbatim>\<open>" FP16 "\<close> fits the first only, and in
  another case than the file name has it.
\<close>

definition mixed_case_files :: "(path \<times> string) list" where
  "mixed_case_files =
     [([''a'', ''openpose_v1_Fp16.safetensors''], ''0a1b2c3d''),
      ([''a'', ''depth_v2.pt''], ''4e5f6071''),
      ([''b'', ''tile_fp32.pth''], ''8a9b0c1d'')]"


text \<open>Two files of the same name with different contents, in two directories.\<close>

definition same_name_files :: "(path \<times> string) list" where
  "same_name_files = [([''a'', ''depth.pt''], ''11111111''), ([''b'', ''depth.pt''], ''22222222'')]"

definition distinct_name_files :: "(path \<times> string) list" where
  "distinct_name_files =
     [([''a'', ''openpose_v1.safetensors''], ''11111111''), ([''b'', ''depth.pt''], ''22222222'')]"

definition example_files :: "(path \<times> string) list" where
  "example_files =
     [([''a'', ''openpose_v1.safetensors''], ''0a1b2c3d''), ([''b'', ''randomfile.txt''], ''4e5f6071'')]"

definition no_discovery :: discovery where
  "no_discovery = \<lparr>controlnet_exists = False, controlnet_path = None, cn_base_path = []\<rparr>"

definition found_discovery :: discovery where
  "found_discovery =
     \<lparr>controlnet_exists = True,
      controlnet_path = Some [''extensions'', ''sd-webui-controlnet''],
      cn_base_path = ''extensions.sd-webui-controlnet''\<rparr>"

section \<open>Auxiliary facts\<close>

subsection \<open>Substrings and the table scan\<close>

lemma startswith_iff: "startswith s pre \<longleftrightarrow> (\<exists>post. s = pre @ post)"
  by (induction s pre rule: startswith.induct) auto

lemma str_in_iff: "str_in sub s \<longleftrightarrow> (\<exists>pre post. s = pre @ sub @ post)"
proof (induction s)
  case Nil show ?case by simp
next
  case (Cons c s)
  show ?case
    by (auto simp: startswith_iff Cons Cons_eq_append_conv) 
qed

lemma scan_table_None: "scan_table t model = None \<longleftrightarrow> (\<forall>k\<in>set (map fst t). \<not> str_in k model)"
  by (induction t model rule: scan_table.induct) auto

lemma scan_table_first_match:
  "scan_table t model = Some v \<longleftrightarrow>
     (\<exists>i<length t. str_in (fst (t ! i)) model \<and> snd (t ! i) = v
        \<and> (\<forall>j<i. \<not> str_in (fst (t ! j)) model))"
  by (induction t model rule: scan_table.induct) (auto simp: Ex_less_Suc2 All_less_Suc2)

subsection \<open>The loops of the scanner as filter, sort and map\<close>

lemma scan_files_eq:
  "scan_files h (name_filter_of h) ps (mp, log) = (mp @ filter (kept h) ps, log @ map IsFile ps)"
  by (induction ps arbitrary: mp log) (auto simp: kept_def)

lemma scan_dirs_eq:
  "scan_dirs h (name_filter_of h) dirs (mp, log) =
     (mp @ filter (kept h) (listing h dirs), log @ scan_log h dirs)"
  by (induction dirs arbitrary: mp log) (auto simp: scan_files_eq listing_def scan_log_def)

lemma hash_models_eq:
  "hash_models h ps (ms, log) = (ms @ map (format_name h) ps, log @ map ModelHash ps)"
  by (induction ps arbitrary: ms log) auto

lemma scan_model_paths_eq:
  "scan_model_paths h dirs = (sort_key path_name (filter (kept h) (listing h dirs)), scan_log h dirs)"
  by (simp add: scan_model_paths_def scan_dirs_eq)

lemma get_cn_models_body_eq:
  "get_cn_models_body disc h =
     (map (format_name h) (sort_key path_name (filter (kept h) (listing h (get_cn_model_dirs disc h)))),
      scan_log h (get_cn_model_dirs disc h)
        @ map ModelHash (sort_key path_name (filter (kept h) (listing h (get_cn_model_dirs disc h)))))"
  by (simp add: get_cn_models_body_def scan_model_paths_eq hash_models_eq Let_def)

lemma map_insort_key:
  "map f (insort_key (\<lambda>x. k (f x)) x ys) = insort_key k (f x) (map f ys)"
  by (induction ys) auto

lemma map_sort_key:
  "map f (sort_key (\<lambda>x. k (f x)) xs) = sort_key k (map f xs)"
  by (induction xs) (auto simp: map_insort_key)

lemma stem_suffix_name: "name_stem n @ name_suffix n = n"
  by (simp add: name_stem_def name_suffix_def split: option.splits)

lemma catalog_determined:
  assumes ms: "mset xs = mset ys"
    and same: "\<forall>p\<in>set xs. \<forall>q\<in>set xs. path_name p = path_name q \<longrightarrow> model_hash h p = model_hash h q"
  shows "map (format_name h) (sort_key path_name xs) = map (format_name h) (sort_key path_name ys)"
proof -
  define g where "g = (\<lambda>p. (path_name p, model_hash h p))"
  define F where "F = (\<lambda>(n, hs). name_stem n @ '' ['' @ hs @ '']'')"
  have fmt: "format_name h p = F (g p)" for p
    by (simp add: format_name_def F_def g_def path_stem_def)
  have srt: "map g (sort_key path_name zs) = sort_key fst (map g zs)" for zs
    using map_sort_key [of g fst zs] by (simp add: g_def)
  have inj: "inj_on fst (set (map g xs))"
  proof (rule inj_onI)
    fix a b
    assume a: "a \<in> set (map g xs)" and b: "b \<in> set (map g xs)" and ab: "fst a = fst b"
    from a obtain p where p: "p \<in> set xs" "a = g p" by auto
    from b obtain q where q: "q \<in> set xs" "b = g q" by auto
    from ab p q have "path_name p = path_name q" by (simp add: g_def)
    with same p q have "model_hash h p = model_hash h q" by blast
    with \<open>path_name p = path_name q\<close> p q show "a = b" by (simp add: g_def)
  qed
  have "mset (map g xs) = mset (sort_key fst (map g ys))"
    using ms by simp
  then have eq: "sort_key fst (map g xs) = sort_key fst (map g ys)"
    using inj by (rule sort_key_inj_key_eq) simp
  have "map (format_name h) (sort_key path_name zs) = map F (sort_key fst (map g zs))" for zs
    using srt [of zs, symmetric] by (simp add: fmt)
  then show ?thesis using eq by simp
qed

subsection \<open>Stripping spaces, suffix and stem\<close>

lemma takeWhile_spaces:
  "takeWhile (\<lambda>x. x = c) s = replicate (length (takeWhile (\<lambda>x. x = c) s)) c"
  by (induction s) auto

lemma strip_spaces_decomp:
  "\<exists>n m. s = replicate n CHR '' '' @ strip_spaces s @ replicate m CHR '' ''"
proof -
  let ?P = "\<lambda>c. c = CHR '' ''"
  let ?t = "dropWhile ?P s"
  have 1: "s = takeWhile ?P s @ ?t" by simp
  have 2: "rev ?t = takeWhile ?P (rev ?t) @ dropWhile ?P (rev ?t)" by simp
  have "?t = rev (dropWhile ?P (rev ?t)) @ rev (takeWhile ?P (rev ?t))"
    using arg_cong [OF 2, of rev] by (simp only: rev_append rev_rev_ident)
  then have 3: "?t = strip_spaces s @ rev (takeWhile ?P (rev ?t))"
    by (simp add: strip_spaces_def)
  have 4: "rev (takeWhile ?P (rev ?t)) = replicate (length (takeWhile ?P (rev ?t))) CHR '' ''"
    using takeWhile_spaces [of "CHR '' ''" "rev ?t"] by (metis rev_replicate)
  have 5: "takeWhile ?P s = replicate (length (takeWhile ?P s)) CHR '' ''"
    by (rule takeWhile_spaces)
  from 1 3 4 5 show ?thesis by metis
qed

lemma strip_spaces_ends:
  "strip_spaces s = []
   \<or> (hd (strip_spaces s) \<noteq> CHR '' '' \<and> last (strip_spaces s) \<noteq> CHR '' '')"
proof (cases "strip_spaces s = []")
  case True
  then show ?thesis by simp
next
  case False
  let ?P = "\<lambda>c. c = CHR '' ''"
  define t where "t = dropWhile ?P s"
  define u where "u = dropWhile ?P (rev t)"
  have strip: "strip_spaces s = rev u"
    by (simp add: strip_spaces_def t_def u_def)
  with False have u: "u \<noteq> []" by simp
  then have t: "t \<noteq> []" by (auto simp: u_def)
  have "\<not> ?P (hd u)"
    using u unfolding u_def by (rule hd_dropWhile)
  then have l: "last (strip_spaces s) \<noteq> CHR '' ''"
    using u by (simp add: strip last_rev)
  have "rev t = takeWhile ?P (rev t) @ u"
    by (simp add: u_def)
  then have "last (rev t) = last u"
    using u by (metis last_appendR)
  then have "last u = hd t"
    using t by (simp add: last_rev)
  moreover have "\<not> ?P (hd t)"
    using t unfolding t_def by (rule hd_dropWhile)
  ultimately have "hd (strip_spaces s) \<noteq> CHR '' ''"
    using u by (simp add: strip hd_rev)
  with l show ?thesis by simp
qed

lemma rfind_last_dot:
  assumes "c \<notin> set rest"
  shows "rfind c (stem @ c # rest) = Some (length stem)"
proof -
  have "takeWhile (\<lambda>x. x \<noteq> c) (rev rest @ c # rev stem)
          = rev rest @ takeWhile (\<lambda>x. x \<noteq> c) (c # rev stem)"
    by (rule takeWhile_append2) (use assms in auto)
  then have "length (takeWhile (\<lambda>x. x \<noteq> c) (rev (stem @ c # rest))) = length rest"
    by simp
  then show ?thesis by (simp add: rfind_def)
qed

lemma name_suffix_append:
  assumes "CHR ''.'' \<notin> set rest" and "rest \<noteq> []" and "stem \<noteq> []"
  shows "name_suffix (stem @ CHR ''.'' # rest) = CHR ''.'' # rest"
    and "name_stem (stem @ CHR ''.'' # rest) = stem"
  using assms by (simp_all add: name_suffix_def name_stem_def rfind_last_dot)

lemma name_suffix_nonempty:
  assumes "name_suffix n \<noteq> []"
  shows "name_stem n \<noteq> [] \<and> n = name_stem n @ name_suffix n"
  using assms
  by (auto simp: name_suffix_def name_stem_def split: option.splits if_splits)

lemma name_suffix_iff:
  assumes "CHR ''.'' \<notin> set rest" and "rest \<noteq> []"
  shows "name_suffix n = CHR ''.'' # rest
         \<longleftrightarrow> (\<exists>stem. stem \<noteq> [] \<and> n = stem @ CHR ''.'' # rest \<and> name_stem n = stem)"
proof
  assume s: "name_suffix n = CHR ''.'' # rest"
  then have "name_suffix n \<noteq> []" by simp
  from name_suffix_nonempty [OF this] s
  show "\<exists>stem. stem \<noteq> [] \<and> n = stem @ CHR ''.'' # rest \<and> name_stem n = stem"
    by metis
next
  assume "\<exists>stem. stem \<noteq> [] \<and> n = stem @ CHR ''.'' # rest \<and> name_stem n = stem"
  then obtain stem where "stem \<noteq> []" "n = stem @ CHR ''.'' # rest" by blast
  with assms show "name_suffix n = CHR ''.'' # rest"
    by (simp add: name_suffix_append)
qed

lemma whitelisted_suffix_iff:
  assumes "e \<in> set cn_model_exts"
  shows "path_suffix p = e
         \<longleftrightarrow> (\<exists>stem. stem \<noteq> [] \<and> path_name p = stem @ e \<and> path_stem p = stem)"
proof -
  from assms obtain rest where "e = CHR ''.'' # rest" "CHR ''.'' \<notin> set rest" "rest \<noteq> []"
    by (auto simp: cn_model_exts_def)
  then show ?thesis
    using name_suffix_iff [of rest "path_name p"]
    by (simp add: path_suffix_def path_stem_def)
qed

subsection \<open>The argument builder\<close>

lemma choose_image_cases:
  assumes "choose_image self args module input_image = Inr (img, crop)"
  shows "(module = Some face_id_module \<and> input_image = PyNone
           \<and> extract_face_id_from_controlnet self args = Inr img \<and> img \<noteq> PyNone \<and> \<not> crop)
         \<or> ((module \<noteq> Some face_id_module \<or> input_image \<noteq> PyNone
               \<or> extract_face_id_from_controlnet self args = Inr PyNone)
             \<and> img = input_image \<and> crop = (input_image = PyNone))"
  using assms by (auto simp: choose_image_def Let_def split: if_splits sum.splits)

lemma extract_error_not_attribute:
  assumes "external_cn self = Some cn"
    and "extract_face_id_from_controlnet self args = Inl e"
  shows "(\<exists>s. e = TypeError s) \<or> (\<exists>s. e = KeyError s)"
  using assms
proof (induction args)
  case Nil then show ?case by simp
next
  case (Cons arg rest)
  show ?case
  proof (cases arg)
    case (UnitArg u)
    with Cons show ?thesis
      by (cases "unit_image u") (auto split: if_splits option.splits)
  next
    case (ValArg v)
    with Cons show ?thesis
      by (cases v) (auto split: if_splits option.splits)
  qed
qed

lemma choose_image_error_not_attribute:
  assumes "external_cn self = Some cn"
    and "choose_image self args module input_image = Inl e"
  shows "(\<exists>s. e = TypeError s) \<or> (\<exists>s. e = KeyError s)"
  using assms extract_error_not_attribute [of self cn args]
  by (auto simp: choose_image_def Let_def split: if_splits sum.splits)

lemma update_scripts_args_calls:
  assumes "update_scripts_args self p model module w gs ge input_image = (raised, p1, calls)"
    and "calls \<noteq> []"
  shows "\<exists>cn img crop.
           cn_available self \<and> model \<noteq> ''None'' \<and> external_cn self = Some cn
           \<and> choose_image self (script_args p) (resolve_module model module) input_image = Inr (img, crop)
           \<and> (let u = \<lparr>unit_model = model, unit_weight = w, unit_control_mode = BALANCED,
                        unit_module = resolve_module model module, unit_guidance_start = gs,
                        unit_guidance_end = ge, unit_pixel_perfect = True, unit_image = img,
                        unit_inpaint_crop_input_image = crop\<rparr>
              in calls = [Call_ControlNetUnit u, Call_update_cn_script_in_processing [u]]
                 \<and> raised = translate_error (fst (update_cn_script_in_processing cn p [u]))
                 \<and> p1 = snd (update_cn_script_in_processing cn p [u]))"
  using assms
  by (auto simp: update_scripts_args_def Let_def split: if_splits sum.splits option.splits prod.splits)

lemma update_scripts_args_one_unit:
  assumes "cn_available self" and "model \<noteq> ''None''" and "external_cn self = Some cn"
    and "choose_image self (script_args p) (resolve_module model module) input_image
           = Inr (img, crop)"
  shows "\<exists>u raised p1.
           update_scripts_args self p model module w gs ge input_image
             = (raised, p1, [Call_ControlNetUnit u, Call_update_cn_script_in_processing [u]])
           \<and> unit_control_mode u = BALANCED \<and> unit_pixel_perfect u
           \<and> unit_image u = img \<and> unit_inpaint_crop_input_image u = crop"
  using assms
  by (simp add: update_scripts_args_def Let_def split: prod.splits)

lemma getitem_dict_get:
  "dict_get d k \<noteq> PyNone \<Longrightarrow> getitem (PyDict d) k = Inr (dict_get d k)"
  by (simp add: dict_get_def split: option.splits)

lemma extract_face_id_without_native_match:
  assumes "external_cn self = Some cn"
    and "\<forall>u. UnitArg u \<in> set args \<longrightarrow> unit_module u \<noteq> Some face_id_module"
  shows "extract_face_id_from_controlnet self args =
           Inr (case List.map_filter legacy_face_image args of [] \<Rightarrow> PyNone | img # _ \<Rightarrow> img)"
  using assms
proof (induction args)
  case Nil
  then show ?case by (simp add: List.map_filter_simps)
next
  case (Cons arg rest)
  then have IH: "extract_face_id_from_controlnet self rest =
           Inr (case List.map_filter legacy_face_image rest of [] \<Rightarrow> PyNone | img # _ \<Rightarrow> img)"
    by simp
  show ?case
  proof (cases arg)
    case (UnitArg u)
    with Cons.prems have "unit_module u \<noteq> Some face_id_module" by simp
    with UnitArg Cons.prems(1) IH show ?thesis
      by (simp add: List.map_filter_simps)
  next
    case (ValArg v)
    show ?thesis
    proof (cases v)
      case (PyDict d)
      show ?thesis
      proof (cases "dict_get d ''module'' = PyStr face_id_module
                      \<and> dict_get d ''input_image'' \<noteq> PyNone")
        case True
        with ValArg PyDict Cons.prems(1) show ?thesis
          by (simp add: List.map_filter_simps getitem_dict_get del: getitem.simps)
      next
        case False
        with ValArg PyDict Cons.prems(1) IH show ?thesis
          by (auto simp add: List.map_filter_simps simp del: getitem.simps)
      qed
    qed (use ValArg Cons.prems(1) IH in \<open>simp_all add: List.map_filter_simps\<close>)
  qed
qed

lemma disk_dirs:
  "d1 \<noteq> [] \<Longrightarrow> d2 \<noteq> [] \<Longrightarrow>
   get_cn_model_dirs found_discovery (disk_host d1 d2 fs)
   = [[''models'', ''ControlNet''], [''extensions'', ''sd-webui-controlnet'', ''models''],
      [d1], [d2]]"
  by (simp add: get_cn_model_dirs_def found_discovery_def disk_host_def opts_get_def)

subsection \<open>Discovery, the adapter's state and the cache\<close>


lemma init_controlnet_import_fails:
  "import_module (base @ ''.scripts.external_code'') ''external_code'' = Inl e \<Longrightarrow>
   init_controlnet import_module base self = (Some e, self)"
  by (simp add: init_controlnet_def)

lemma apply_op_import_fails:
  "import_module (base @ ''.scripts.external_code'') ''external_code'' = Inl e \<Longrightarrow>
   apply_op import_module base self op = self"
  by (cases op) (simp_all add: init_controlnet_import_fails)

lemma foldl_apply_op_import_fails:
  "import_module (base @ ''.scripts.external_code'') ''external_code'' = Inl e \<Longrightarrow>
   foldl (apply_op import_module base) self ops = self"
  by (induction ops arbitrary: self) (simp_all add: apply_op_import_fails)

lemma init_controlnet_result:
  "snd (init_controlnet import_module base self) = self1 \<Longrightarrow>
   (\<exists>e. import_module (base @ ''.scripts.external_code'') ''external_code'' = Inl e \<and> self1 = self)
   \<or> (\<exists>m. import_module (base @ ''.scripts.external_code'') ''external_code'' = Inr m
          \<and> cn_available self1 \<and> external_cn self1 = Some m)"
  by (auto simp: init_controlnet_def Let_def split: sum.splits)

lemma apply_op_invariant:
  "handle_invariant self \<Longrightarrow> handle_invariant (apply_op import_module base self op)"
proof (cases op)
  case Op_init_controlnet
  assume inv: "handle_invariant self"
  from init_controlnet_result [OF refl, of import_module base self] inv Op_init_controlnet
  show ?thesis by (auto simp: handle_invariant_def)
qed simp_all

lemma foldl_apply_op_invariant:
  "handle_invariant self \<Longrightarrow> handle_invariant (foldl (apply_op import_module base) self ops)"
  by (induction ops arbitrary: self) (simp_all add: apply_op_invariant)

lemma apply_op_available_mono:
  "cn_available self \<Longrightarrow> cn_available (apply_op import_module base self op)"
proof (cases op)
  case Op_init_controlnet
  assume av: "cn_available self"
  from init_controlnet_result [OF refl, of import_module base self] av Op_init_controlnet
  show ?thesis by auto
qed simp_all

lemma apply_op_becomes_available:
  assumes "\<not> cn_available self" and "cn_available (apply_op import_module base self op)"
  shows "op = Op_init_controlnet
         \<and> (\<exists>m. import_module (base @ ''.scripts.external_code'') ''external_code'' = Inr m
                \<and> external_cn (apply_op import_module base self op) = Some m)"
proof (cases op)
  case Op_init_controlnet
  from init_controlnet_result [OF refl, of import_module base self] assms Op_init_controlnet
  show ?thesis by auto
qed (use assms in simp_all)

lemma none_attribute_error_from_merge:
  assumes inv: "handle_invariant self" and av: "cn_available self"
    and call: "update_scripts_args self p model module w gs ge input_image
                 = (Some (none_has_no_attribute a), p1, calls)"
  shows "calls \<noteq> []"
proof
  assume empty: "calls = []"
  from inv av obtain cn where cn: "external_cn self = Some cn"
    by (auto simp: handle_invariant_def)
  show False
  proof (cases "choose_image self (script_args p) (resolve_module model module) input_image")
    case (Inl e)
    with call av have "e = none_has_no_attribute a"
      by (simp add: update_scripts_args_def Let_def split: if_splits)
    with choose_image_error_not_attribute [OF cn Inl] show False
      by (auto simp: none_has_no_attribute_def)
  next
    case (Inr r)
    with call av cn empty show False
      by (simp add: update_scripts_args_def Let_def split: if_splits prod.splits)
  qed
qed

lemma calls_cached_Some:
  "calls_cached calls (Some models) = map (\<lambda>c. (models, [])) calls"
  by (induction calls) (auto simp: get_cn_models_cached_def)



subsection \<open>The in-memory disk\<close>

lemma disk_listing:
  "listing (disk_host d1 d2 fs) dirs
   = concat (map (\<lambda>p. filter (\<lambda>f. take (length p) f = p \<and> f \<noteq> p) (map fst fs))
       (filter (\<lambda>p. list_ex (\<lambda>f. take (length p) f = p \<and> f \<noteq> p) (map fst fs)) dirs))"
  by (simp add: listing_def disk_host_def)

lemma disk_kept:
  "kept (disk_host d1 d2 fs) p
   = (p \<in> set (map fst fs) \<and> path_suffix p \<in> set cn_model_exts
        \<and> cn_model_regex_search (path_name p))"
  by (simp add: kept_def disk_host_def name_filter_of_def opts_get_def strip_spaces_def
      ascii_lower_def)

lemma same_name_listing_ab:
  "listing (disk_host ''a'' ''b'' same_name_files)
     (get_cn_model_dirs found_discovery (disk_host ''a'' ''b'' same_name_files))
   = [[''a'', ''depth.pt''], [''b'', ''depth.pt'']]"
  by (simp add: disk_dirs disk_listing same_name_files_def)

lemma same_name_listing_ba:
  "listing (disk_host ''b'' ''a'' same_name_files)
     (get_cn_model_dirs found_discovery (disk_host ''b'' ''a'' same_name_files))
   = [[''b'', ''depth.pt''], [''a'', ''depth.pt'']]"
  by (simp add: disk_dirs disk_listing same_name_files_def)

lemma depth_pt_kept:
  "kept (disk_host d1 d2 same_name_files) [''a'', ''depth.pt'']"
  "kept (disk_host d1 d2 same_name_files) [''b'', ''depth.pt'']"
  by (simp_all add: disk_kept same_name_files_def path_suffix_def path_name_def name_suffix_def
      rfind_def cn_model_exts_def cn_model_regex_search_def cn_model_module_def)

lemma depth_pt_format:
  "format_name (disk_host d1 d2 same_name_files) [''a'', ''depth.pt''] = ''depth [11111111]''"
  "format_name (disk_host d1 d2 same_name_files) [''b'', ''depth.pt''] = ''depth [22222222]''"
  by (simp_all add: format_name_def disk_host_def same_name_files_def path_stem_def path_name_def
      name_stem_def rfind_def)

lemma distinct_listing_ab:
  "listing (disk_host ''a'' ''b'' distinct_name_files)
     (get_cn_model_dirs found_discovery (disk_host ''a'' ''b'' distinct_name_files))
   = [[''a'', ''openpose_v1.safetensors''], [''b'', ''depth.pt'']]"
  by (simp add: disk_dirs disk_listing distinct_name_files_def)

lemma distinct_listing_ba:
  "listing (disk_host ''b'' ''a'' distinct_name_files)
     (get_cn_model_dirs found_discovery (disk_host ''b'' ''a'' distinct_name_files))
   = [[''b'', ''depth.pt''], [''a'', ''openpose_v1.safetensors'']]"
  by (simp add: disk_dirs disk_listing distinct_name_files_def)

lemma filtered_dirs:
  "get_cn_model_dirs found_discovery (with_name_filter nf (disk_host ''a'' ''b'' fs))
   = [[''models'', ''ControlNet''], [''extensions'', ''sd-webui-controlnet'', ''models''],
      [''a''], [''b'']]"
  by (simp add: get_cn_model_dirs_def found_discovery_def disk_host_def opts_get_def
      with_name_filter_def)

lemma filtered_listing:
  "listing (with_name_filter nf (disk_host d1 d2 fs)) dirs = listing (disk_host d1 d2 fs) dirs"
  by (simp add: listing_def with_name_filter_def)

lemma filtered_kept:
  "kept (with_name_filter nf (disk_host d1 d2 fs)) p
   = (p \<in> set (map fst fs) \<and> path_suffix p \<in> set cn_model_exts
        \<and> cn_model_regex_search (path_name p)
        \<and> (ascii_lower (strip_spaces nf) = []
            \<or> str_in (ascii_lower (strip_spaces nf)) (ascii_lower (path_name p))))"
  by (simp add: kept_def disk_host_def name_filter_of_def opts_get_def with_name_filter_def)

lemma filtered_format:
  "format_name (with_name_filter nf h) p = format_name h p"
  by (simp add: format_name_def with_name_filter_def)

lemma mixed_listing:
  "listing (disk_host ''a'' ''b'' mixed_case_files)
     [[''models'', ''ControlNet''], [''extensions'', ''sd-webui-controlnet'', ''models''],
      [''a''], [''b'']]
   = [[''a'', ''openpose_v1_Fp16.safetensors''], [''a'', ''depth_v2.pt''],
      [''b'', ''tile_fp32.pth'']]"
  by (simp add: disk_listing mixed_case_files_def)

lemma mixed_names:
  "path_name [''a'', ''openpose_v1_Fp16.safetensors''] = ''openpose_v1_Fp16.safetensors''"
  "path_name [''a'', ''depth_v2.pt''] = ''depth_v2.pt''"
  "path_name [''b'', ''tile_fp32.pth''] = ''tile_fp32.pth''"
  by (simp_all add: path_name_def)

lemma mixed_suffixes:
  "path_suffix [''a'', ''openpose_v1_Fp16.safetensors''] = ''.safetensors''"
  "path_suffix [''a'', ''depth_v2.pt''] = ''.pt''"
  "path_suffix [''b'', ''tile_fp32.pth''] = ''.pth''"
  "path_stem [''a'', ''openpose_v1_Fp16.safetensors''] = ''openpose_v1_Fp16''"
  "path_stem [''a'', ''depth_v2.pt''] = ''depth_v2''"
  "path_stem [''b'', ''tile_fp32.pth''] = ''tile_fp32''"
  by (simp_all add: path_suffix_def path_stem_def mixed_names name_suffix_def name_stem_def
      rfind_def)

lemma mixed_regex:
  "cn_model_regex_search ''openpose_v1_Fp16.safetensors''"
  "cn_model_regex_search ''depth_v2.pt''"
  "cn_model_regex_search ''tile_fp32.pth''"
  by (simp_all add: cn_model_regex_search_def cn_model_module_def)

lemma mixed_lowered_filter: "ascii_lower (strip_spaces '' FP16 '') = ''fp16''"
  by code_simp

lemma mixed_lowered_openpose:
  "ascii_lower ''openpose_v1_Fp16.safetensors'' = ''openpose_v1_fp16.safetensors''"
  by code_simp

lemma mixed_lowered_depth: "ascii_lower ''depth_v2.pt'' = ''depth_v2.pt''"
  by code_simp

lemma mixed_lowered_tile: "ascii_lower ''tile_fp32.pth'' = ''tile_fp32.pth''"
  by code_simp

lemmas mixed_lowered =
  mixed_lowered_filter mixed_lowered_openpose mixed_lowered_depth mixed_lowered_tile

lemma mixed_hashes:
  "model_hash (disk_host d1 d2 mixed_case_files) [''a'', ''openpose_v1_Fp16.safetensors'']
     = ''0a1b2c3d''"
  "model_hash (disk_host d1 d2 mixed_case_files) [''a'', ''depth_v2.pt''] = ''4e5f6071''"
  "model_hash (disk_host d1 d2 mixed_case_files) [''b'', ''tile_fp32.pth''] = ''8a9b0c1d''"
  by (simp_all add: disk_host_def mixed_case_files_def)

section \<open>The claims\<close>

subsection \<open>C1: the unit built by \<^verbatim>\<open>update_scripts_args\<close>\<close>

text \<open>
  Claim C1 says that every call of \<^verbatim>\<open>update_scripts_args\<close> that passes the two guards
  builds exactly one unit and hands it to the merge function. The code does so whenever it
  reaches line 99 (\<open>update_scripts_args_one_unit\<close>), but it does not always reach it: with
  a face-identity model, no input image, and a native unit in the script arguments that
  has the face-identity module selected and no image, line 95 subscripts \<^verbatim>\<open>None\<close> and
  the call ends in a \<^verbatim>\<open>TypeError\<close>, with no unit built and nothing merged.
\<close>

theorem update_scripts_args_face_unit_without_image:
  "update_scripts_args ready_ext \<lparr>script_args = [UnitArg face_unit_no_image]\<rparr>
     ''ip-adapter-faceid-plusv2_sd15'' None 0x3FF0000000000000 0 0x3FF0000000000000 PyNone
   = (Some (TypeError (quoted ''NoneType'' @ '' object is not subscriptable'')),
      \<lparr>script_args = [UnitArg face_unit_no_image]\<rparr>, [])"
  by (simp add: update_scripts_args_def ready_ext_def resolve_module_def cn_model_module_def
      choose_image_def face_id_module_def face_unit_no_image_def)

theorem update_scripts_args_face_unit_without_image_witness:
  "cn_available ready_ext
   \<and> fst (update_scripts_args ready_ext \<lparr>script_args = [UnitArg face_unit_no_image]\<rparr>
          ''ip-adapter-faceid-plusv2_sd15'' None 0x3FF0000000000000 0 0x3FF0000000000000 PyNone)
       = Some (TypeError (quoted ''NoneType'' @ '' object is not subscriptable''))
   \<and> snd (snd (update_scripts_args ready_ext \<lparr>script_args = [UnitArg face_unit_no_image]\<rparr>
          ''ip-adapter-faceid-plusv2_sd15'' None 0x3FF0000000000000 0 0x3FF0000000000000 PyNone))
       = []"
proof -
  have "cn_available ready_ext"
    by (simp add: ready_ext_def)
  then show ?thesis
    by (simp only: update_scripts_args_face_unit_without_image fst_conv snd_conv simp_thms)
qed

subsection \<open>C2: first match in table order\<close>

text \<open>
  Claim C2: when the caller leaves the module unspecified (\<^verbatim>\<open>None\<close> or the string
  \<^verbatim>\<open>"None"\<close>), the module of the unit that \<^verbatim>\<open>update_scripts_args\<close> builds is the result of
  the scan of the keyword table: the value at the first index whose key is a substring of
  the model name, and unset when no key is one. In particular a model name that holds
  \<^verbatim>\<open>depth\<close> and none of the five keys listed before it gets \<^verbatim>\<open>depth_midas\<close>. Here
  \<open>str_in k model\<close> is the substring test.
\<close>

theorem update_scripts_args_resolves_module:
  assumes unspecified: "module = None \<or> module = Some ''None''"
    and call: "update_scripts_args self p model module w gs ge input_image = (raised, p1, calls)"
    and unit: "Call_ControlNetUnit u \<in> set calls"
  shows "unit_module u = scan_table cn_model_module model
     \<and> (\<forall>v. scan_table cn_model_module model = Some v \<longleftrightarrow>
          (\<exists>i<length cn_model_module.
              str_in (fst (cn_model_module ! i)) model \<and> snd (cn_model_module ! i) = v
              \<and> (\<forall>j<i. \<not> str_in (fst (cn_model_module ! j)) model)))
     \<and> (scan_table cn_model_module model = None \<longleftrightarrow>
          (\<forall>k\<in>set (map fst cn_model_module). \<not> str_in k model))
     \<and> (str_in ''depth'' model \<and> \<not> str_in ''inpaint'' model \<and> \<not> str_in ''scribble'' model
          \<and> \<not> str_in ''lineart'' model \<and> \<not> str_in ''openpose'' model \<and> \<not> str_in ''tile'' model
        \<longrightarrow> unit_module u = Some ''depth_midas'')
     \<and> (\<forall>k. str_in k model \<longleftrightarrow> (\<exists>pre post. model = pre @ k @ post))"
proof -
  from unit have "calls \<noteq> []" by auto
  from update_scripts_args_calls [OF call this] unit
  have "unit_module u = resolve_module model module"
    by (auto simp: Let_def)
  with unspecified have m: "unit_module u = scan_table cn_model_module model"
    by (auto simp: resolve_module_def)
  have d: "str_in ''depth'' model \<and> \<not> str_in ''inpaint'' model \<and> \<not> str_in ''scribble'' model
          \<and> \<not> str_in ''lineart'' model \<and> \<not> str_in ''openpose'' model \<and> \<not> str_in ''tile'' model
        \<longrightarrow> scan_table cn_model_module model = Some ''depth_midas''"
    by (simp add: cn_model_module_def)
  show ?thesis
    using m d scan_table_first_match [of cn_model_module model]
      scan_table_None [of cn_model_module model] str_in_iff [of _ model]
    by simp
qed

theorem update_scripts_args_resolves_module_witness:
  "(None = None \<or> None = Some ''None'')
   \<and> update_scripts_args ready_ext \<lparr>script_args = []\<rparr> ''control_v11f1p_sd15_depth'' None
        0x3FF0000000000000 0 0x3FF0000000000000 PyNone
      = (None, \<lparr>script_args = [UnitArg depth_unit]\<rparr>,
         [Call_ControlNetUnit depth_unit, Call_update_cn_script_in_processing [depth_unit]])
   \<and> Call_ControlNetUnit depth_unit
        \<in> set [Call_ControlNetUnit depth_unit, Call_update_cn_script_in_processing [depth_unit]]
   \<and> unit_module depth_unit = scan_table cn_model_module ''control_v11f1p_sd15_depth''
   \<and> scan_table cn_model_module ''control_v11f1p_sd15_depth'' = Some ''depth_midas''"
proof -
  have c: "update_scripts_args ready_ext \<lparr>script_args = []\<rparr> ''control_v11f1p_sd15_depth'' None
        0x3FF0000000000000 0 0x3FF0000000000000 PyNone
      = (None, \<lparr>script_args = [UnitArg depth_unit]\<rparr>,
         [Call_ControlNetUnit depth_unit, Call_update_cn_script_in_processing [depth_unit]])"
    by (simp add: update_scripts_args_def ready_ext_def resolve_module_def cn_model_module_def
        choose_image_def face_id_module_def appending_cn_def depth_unit_def Let_def)
  have u: "None = None \<or> None = Some ''None''" by simp
  have i: "Call_ControlNetUnit depth_unit
        \<in> set [Call_ControlNetUnit depth_unit, Call_update_cn_script_in_processing [depth_unit]]"
    by simp
  from update_scripts_args_resolves_module [OF u c i]
  have "unit_module depth_unit = scan_table cn_model_module ''control_v11f1p_sd15_depth''"
    by blast
  with c i show ?thesis by (simp add: depth_unit_def)
qed

subsection \<open>C3: the guards\<close>

text \<open>
  Claim C3: when the adapter is not available, or the model is the string \<^verbatim>\<open>"None"\<close>,
  \<^verbatim>\<open>update_scripts_args\<close> returns without an exception, leaves the request as it was,
  and makes no call into the neighbour: no unit is built and nothing is merged. (The
  method never assigns to the adapter object.)
\<close>

theorem update_scripts_args_guards:
  "\<not> cn_available self \<or> model = ''None'' \<Longrightarrow>
   update_scripts_args self p model module w gs ge input_image = (None, p, [])"
  by (auto simp: update_scripts_args_def)

theorem update_scripts_args_guards_witness:
  "cn_available old_ext
   \<and> update_scripts_args old_ext \<lparr>script_args = [ValArg (PyInt 1)]\<rparr> ''None'' (Some ''depth_midas'')
        0x3FF0000000000000 0 0x3FF0000000000000 PyNone
      = (None, \<lparr>script_args = [ValArg (PyInt 1)]\<rparr>, [])
   \<and> \<not> cn_available (ControlNetExt_init :: processing ControlNetExt)
   \<and> update_scripts_args ControlNetExt_init \<lparr>script_args = [ValArg (PyInt 1)]\<rparr>
        ''control_v11f1p_sd15_depth'' None 0x3FF0000000000000 0 0x3FF0000000000000 PyNone
      = (None, \<lparr>script_args = [ValArg (PyInt 1)]\<rparr>, [])"
  using update_scripts_args_guards [of old_ext "''None''" "\<lparr>script_args = [ValArg (PyInt 1)]\<rparr>"
      "Some ''depth_midas''" "0x3FF0000000000000" 0 "0x3FF0000000000000" PyNone]
    update_scripts_args_guards [of "ControlNetExt_init :: processing ControlNetExt"
      "''control_v11f1p_sd15_depth''" "\<lparr>script_args = [ValArg (PyInt 1)]\<rparr>"
      None "0x3FF0000000000000" 0 "0x3FF0000000000000" PyNone]
  by (simp add: ControlNetExt_init_def old_ext_def)

subsection \<open>C4: what the scanner keeps\<close>

text \<open>
  Claim C4: the catalog is made of exactly the traversed entries that are files, have
  one of the five whitelisted extensions (the name is a non-empty stem followed by the
  extension), hold one of the keywords in their name, and pass the name filter. The filter
  is the value of \<^verbatim>\<open>control_net_models_name_filter\<close> in the host settings (empty when
  the key is absent), stripped of the spaces at both ends and lowered with \<^verbatim>\<open>str.lower\<close>;
  when it is not empty, a file passes if the filter occurs in its name lowered with
  \<^verbatim>\<open>str.lower\<close>. Each kept file appears as its stem, a space, and its hash in square
  brackets. The witness is the example of the claim (of \<^verbatim>\<open>openpose_v1.safetensors\<close> and
  \<^verbatim>\<open>randomfile.txt\<close>, in two directories, only the first appears), and three model
  files of which the filter \<^verbatim>\<open>" FP16 "\<close> keeps the one named
  \<^verbatim>\<open>openpose_v1_Fp16.safetensors\<close>.
\<close>

theorem scanner_keeps_matching_files:
  "fst (get_cn_models_body disc h)
     = map (format_name h)
         (sort_key path_name (filter (kept h) (listing h (get_cn_model_dirs disc h))))
   \<and> format_name h p = path_stem p @ '' ['' @ model_hash h p @ '']''
   \<and> path_stem p @ path_suffix p = path_name p
   \<and> (\<forall>e\<in>set cn_model_exts.
         path_suffix p = e
         \<longleftrightarrow> (\<exists>stem. stem \<noteq> [] \<and> path_name p = stem @ e \<and> path_stem p = stem))
   \<and> (kept h p \<longleftrightarrow>
        is_file h p
        \<and> path_suffix p \<in> {''.pt'', ''.pth'', ''.ckpt'', ''.safetensors'', ''.bin''}
        \<and> (\<exists>k\<in>set (map fst cn_model_module). \<exists>pre post. path_name p = pre @ k @ post)
        \<and> (name_filter_of h = []
            \<or> (\<exists>pre post. str_lower h (path_name p) = pre @ name_filter_of h @ post)))
   \<and> name_filter_of h
       = str_lower h (strip_spaces
           (case map_of (opts_data h) ''control_net_models_name_filter'' of
              Some v \<Rightarrow> v | None \<Rightarrow> []))
   \<and> (\<exists>n m. setting = replicate n CHR '' '' @ strip_spaces setting @ replicate m CHR '' '')
   \<and> (strip_spaces setting = []
        \<or> (hd (strip_spaces setting) \<noteq> CHR '' '' \<and> last (strip_spaces setting) \<noteq> CHR '' ''))"
proof -
  have "cn_model_regex_search (path_name p)
        \<longleftrightarrow> (\<exists>k\<in>set (map fst cn_model_module). \<exists>pre post. path_name p = pre @ k @ post)"
    by (simp add: cn_model_regex_search_def list_ex_iff str_in_iff)
  then have k: "kept h p \<longleftrightarrow>
        is_file h p
        \<and> path_suffix p \<in> {''.pt'', ''.pth'', ''.ckpt'', ''.safetensors'', ''.bin''}
        \<and> (\<exists>k\<in>set (map fst cn_model_module). \<exists>pre post. path_name p = pre @ k @ post)
        \<and> (name_filter_of h = []
            \<or> (\<exists>pre post. str_lower h (path_name p) = pre @ name_filter_of h @ post))"
    by (simp add: kept_def cn_model_exts_def str_in_iff)
  have nf: "name_filter_of h
       = str_lower h (strip_spaces
           (case map_of (opts_data h) ''control_net_models_name_filter'' of
              Some v \<Rightarrow> v | None \<Rightarrow> []))"
    by (simp add: name_filter_of_def opts_get_def)
  have c: "fst (get_cn_models_body disc h)
     = map (format_name h)
         (sort_key path_name (filter (kept h) (listing h (get_cn_model_dirs disc h))))"
    by (simp add: get_cn_models_body_eq)
  have f: "format_name h p = path_stem p @ '' ['' @ model_hash h p @ '']''"
    by (simp add: format_name_def)
  have s: "path_stem p @ path_suffix p = path_name p"
    by (simp add: path_stem_def path_suffix_def stem_suffix_name)
  have w: "\<forall>e\<in>set cn_model_exts.
         path_suffix p = e
         \<longleftrightarrow> (\<exists>stem. stem \<noteq> [] \<and> path_name p = stem @ e \<and> path_stem p = stem)"
    using whitelisted_suffix_iff [of _ p] by blast
  from c f s w k nf strip_spaces_decomp [of setting] strip_spaces_ends [of setting]
  show ?thesis by (intro conjI)
qed

theorem scanner_keeps_matching_files_witness:
  "fst (get_cn_models_body found_discovery (disk_host ''a'' ''b'' example_files))
     = [''openpose_v1 [0a1b2c3d]'']
   \<and> fst (get_cn_models_body found_discovery (disk_host ''a'' ''b'' mixed_case_files))
     = [''depth_v2 [4e5f6071]'', ''openpose_v1_Fp16 [0a1b2c3d]'', ''tile_fp32 [8a9b0c1d]'']
   \<and> fst (get_cn_models_body found_discovery
            (with_name_filter '' FP16 '' (disk_host ''a'' ''b'' mixed_case_files)))
     = [''openpose_v1_Fp16 [0a1b2c3d]'']"
proof -
  let ?h1 = "disk_host ''a'' ''b'' example_files"
  let ?h2 = "disk_host ''a'' ''b'' mixed_case_files"
  let ?h3 = "with_name_filter '' FP16 '' (disk_host ''a'' ''b'' mixed_case_files)"
  have "fst (get_cn_models_body found_discovery ?h1)
          = map (format_name ?h1) (sort_key path_name
              (filter (kept ?h1) (listing ?h1 (get_cn_model_dirs found_discovery ?h1))))"
    using scanner_keeps_matching_files [of found_discovery ?h1] by (rule conjunct1)
  also have "\<dots> = [''openpose_v1 [0a1b2c3d]'']"
    by (simp add: disk_dirs disk_listing disk_kept example_files_def path_suffix_def
        path_name_def name_suffix_def rfind_def cn_model_exts_def cn_model_regex_search_def
        cn_model_module_def format_name_def path_stem_def name_stem_def)
       (simp add: disk_host_def)
  finally have 1: "fst (get_cn_models_body found_discovery ?h1) = [''openpose_v1 [0a1b2c3d]'']" .
  have "fst (get_cn_models_body found_discovery ?h2)
          = map (format_name ?h2) (sort_key path_name
              (filter (kept ?h2) (listing ?h2 (get_cn_model_dirs found_discovery ?h2))))"
    using scanner_keeps_matching_files [of found_discovery ?h2] by (rule conjunct1)
  also have "\<dots> = [''depth_v2 [4e5f6071]'', ''openpose_v1_Fp16 [0a1b2c3d]'',
                     ''tile_fp32 [8a9b0c1d]'']"
    by (simp add: disk_dirs mixed_listing disk_kept mixed_names mixed_suffixes mixed_regex
        mixed_hashes cn_model_exts_def format_name_def)
       (simp add: mixed_case_files_def)
  finally have 2: "fst (get_cn_models_body found_discovery ?h2)
     = [''depth_v2 [4e5f6071]'', ''openpose_v1_Fp16 [0a1b2c3d]'', ''tile_fp32 [8a9b0c1d]'']" .
  have "fst (get_cn_models_body found_discovery ?h3)
          = map (format_name ?h3) (sort_key path_name
              (filter (kept ?h3) (listing ?h3 (get_cn_model_dirs found_discovery ?h3))))"
    using scanner_keeps_matching_files [of found_discovery ?h3] by (rule conjunct1)
  also have "\<dots> = [''openpose_v1_Fp16 [0a1b2c3d]'']"
    by (simp add: filtered_dirs filtered_listing mixed_listing filtered_kept mixed_names
        mixed_suffixes mixed_regex mixed_lowered mixed_hashes cn_model_exts_def
        filtered_format)
       (simp add: format_name_def mixed_suffixes mixed_case_files_def disk_host_def)
  finally have 3: "fst (get_cn_models_body found_discovery ?h3)
     = [''openpose_v1_Fp16 [0a1b2c3d]'']" .
  from 1 2 3 show ?thesis by (intro conjI)
qed

subsection \<open>C5: the exception of the merge call\<close>

text \<open>
  Claim C5: when the merge call raises an \<^verbatim>\<open>AttributeError\<close>, \<^verbatim>\<open>update_scripts_args\<close>
  raises a \<^verbatim>\<open>RuntimeError\<close> with the message about WEBUI versions lower than 1.6.0 (and
  the original exception as its cause) if the text of the exception holds
  \<^verbatim>\<open>script_args_value\<close>, and the very same \<^verbatim>\<open>AttributeError\<close> otherwise.
\<close>

theorem merge_attribute_error_translated:
  assumes handle: "external_cn self = Some cn"
    and call: "update_scripts_args self p model module w gs ge input_image = (raised, p1, calls)"
    and merged: "Call_update_cn_script_in_processing units \<in> set calls"
    and fails: "fst (update_cn_script_in_processing cn p units) = Some (AttributeError s)"
  shows "raised = Some (if str_in ''script_args_value'' s
                        then RuntimeError webui_too_old_msg (AttributeError s)
                        else AttributeError s)
         \<and> str_in ''WEBUI version lower than 1.6.0'' webui_too_old_msg"
proof -
  from merged have "calls \<noteq> []" by auto
  from update_scripts_args_calls [OF call this] merged handle fails
  have "raised = translate_error (Some (AttributeError s))"
    by (auto simp: Let_def)
  moreover have "str_in ''WEBUI version lower than 1.6.0'' webui_too_old_msg"
    by (simp add: webui_too_old_msg_def)
  ultimately show ?thesis by simp
qed

theorem merge_attribute_error_translated_witness:
  "external_cn old_ext = Some old_cn
   \<and> update_scripts_args old_ext \<lparr>script_args = []\<rparr> ''control_v11f1p_sd15_depth'' None
        0x3FF0000000000000 0 0x3FF0000000000000 PyNone
      = (Some (RuntimeError webui_too_old_msg
                 (AttributeError (quoted ''StableDiffusionProcessingImg2Img''
                    @ '' object has no attribute '' @ quoted ''script_args_value''))),
         \<lparr>script_args = []\<rparr>,
         [Call_ControlNetUnit depth_unit, Call_update_cn_script_in_processing [depth_unit]])
   \<and> fst (update_cn_script_in_processing old_cn \<lparr>script_args = []\<rparr> [depth_unit])
      = Some (AttributeError (quoted ''StableDiffusionProcessingImg2Img''
                @ '' object has no attribute '' @ quoted ''script_args_value''))"
proof -
  obtain raised p1 calls where
    c: "update_scripts_args old_ext \<lparr>script_args = []\<rparr> ''control_v11f1p_sd15_depth'' None
          0x3FF0000000000000 0 0x3FF0000000000000 PyNone = (raised, p1, calls)"
    by (cases "update_scripts_args old_ext \<lparr>script_args = []\<rparr> ''control_v11f1p_sd15_depth'' None
          0x3FF0000000000000 0 0x3FF0000000000000 PyNone") auto
  have h: "external_cn old_ext = Some old_cn" by (simp add: old_ext_def)
  have pc: "p1 = \<lparr>script_args = []\<rparr>
      \<and> calls = [Call_ControlNetUnit depth_unit, Call_update_cn_script_in_processing [depth_unit]]"
    using c
    by (simp add: update_scripts_args_def old_ext_def old_cn_def resolve_module_def
        cn_model_module_def choose_image_def face_id_module_def depth_unit_def Let_def)
  then have m: "Call_update_cn_script_in_processing [depth_unit] \<in> set calls" by simp
  have f: "fst (update_cn_script_in_processing old_cn \<lparr>script_args = []\<rparr> [depth_unit])
      = Some (AttributeError (quoted ''StableDiffusionProcessingImg2Img''
                @ '' object has no attribute '' @ quoted ''script_args_value''))"
    by (simp add: old_cn_def)
  from merge_attribute_error_translated [OF h c m f]
  have "raised = Some (RuntimeError webui_too_old_msg
                 (AttributeError (quoted ''StableDiffusionProcessingImg2Img''
                    @ '' object has no attribute '' @ quoted ''script_args_value'')))"
    by (simp add: quoted_def)
  with c pc h f show ?thesis by simp
qed

subsection \<open>C6: the face-identity image among the script arguments\<close>

text \<open>
  Claim C6 says that \<^verbatim>\<open>extract_face_id_from_controlnet\<close> returns the image of the first
  argument that has the face-identity module and an image, and \<^verbatim>\<open>None\<close> when there is
  none, and that it finds the image of a legacy dict when no native unit carries one. The
  branch for dicts tests that the image is present; the branch for native units does not
  (\<open>extract_face_id_without_native_match\<close> is what holds when no native unit has the
  module). With a native unit that has the module and no image in front of a legacy dict
  that has both, the code raises \<^verbatim>\<open>TypeError\<close> instead of returning the dict's image.
\<close>

theorem extract_face_id_unit_without_image:
  "extract_face_id_from_controlnet ready_ext [UnitArg face_unit_no_image, ValArg face_dict]
   = Inl (TypeError (quoted ''NoneType'' @ '' object is not subscriptable''))"
  by (simp add: ready_ext_def face_id_module_def face_unit_no_image_def)

theorem extract_face_id_unit_without_image_witness:
  "legacy_face_image (ValArg face_dict) = Some (PyStr ''face.png'')
   \<and> extract_face_id_from_controlnet ready_ext [UnitArg face_unit_no_image, ValArg face_dict]
       \<noteq> Inr (PyStr ''face.png'')"
proof -
  have "legacy_face_image (ValArg face_dict) = Some (PyStr ''face.png'')"
    by (simp add: face_dict_def dict_get_def face_id_module_def)
  moreover
  have "extract_face_id_from_controlnet ready_ext [UnitArg face_unit_no_image, ValArg face_dict]
          \<noteq> Inr (PyStr ''face.png'')"
    by (simp only: extract_face_id_unit_without_image) simp
  ultimately show ?thesis by (rule conjI)
qed

subsection \<open>C7: no neighbour detected\<close>




subsection \<open>C8: the order of the catalog\<close>

text \<open>
  Claim C8 says that the catalog is sorted by file name and that the same files on disk
  give the same catalog in whatever order the directories are listed or traversed. The
  sort key is the file name alone and the sort is stable, so two files of the same name
  in different directories appear in the order of traversal. Here the two hosts hold the
  same two files \<^verbatim>\<open>a/depth.pt\<close> and \<^verbatim>\<open>b/depth.pt\<close>, of different contents, and name the
  two directories in opposite order: the catalogs differ.
\<close>

theorem catalog_depends_on_directory_order:
  "mset (listing (disk_host ''a'' ''b'' same_name_files)
           (get_cn_model_dirs found_discovery (disk_host ''a'' ''b'' same_name_files)))
   = mset (listing (disk_host ''b'' ''a'' same_name_files)
           (get_cn_model_dirs found_discovery (disk_host ''b'' ''a'' same_name_files)))
   \<and> fst (get_cn_models_body found_discovery (disk_host ''a'' ''b'' same_name_files))
       = [''depth [11111111]'', ''depth [22222222]'']
   \<and> fst (get_cn_models_body found_discovery (disk_host ''b'' ''a'' same_name_files))
       = [''depth [22222222]'', ''depth [11111111]'']
   \<and> fst (get_cn_models_body found_discovery (disk_host ''a'' ''b'' same_name_files))
       \<noteq> fst (get_cn_models_body found_discovery (disk_host ''b'' ''a'' same_name_files))"
  by (simp add: get_cn_models_body_eq same_name_listing_ab same_name_listing_ba depth_pt_kept
      depth_pt_format path_name_def)

text \<open>
  Claim C8, as the code has it: the paths behind the catalog are the kept entries sorted
  by file name, entries of the same file name staying in the order of traversal, and
  the catalog lists them in that order. Two scans that traverse the same entries in any
  order, with the same files, hashes, name filter and \<^verbatim>\<open>str.lower\<close>, return the same
  catalog provided that kept files of equal name have equal hashes, as they have when
  the names of the kept files are pairwise distinct.
\<close>

theorem catalog_sorted_and_determined:
  "sorted (map path_name (fst (scan_model_paths h1 (get_cn_model_dirs d1 h1))))
   \<and> (\<forall>n. filter (\<lambda>p. path_name p = n) (fst (scan_model_paths h1 (get_cn_model_dirs d1 h1)))
          = filter (\<lambda>p. path_name p = n)
              (filter (kept h1) (listing h1 (get_cn_model_dirs d1 h1))))
   \<and> mset (fst (scan_model_paths h1 (get_cn_model_dirs d1 h1)))
       = mset (filter (kept h1) (listing h1 (get_cn_model_dirs d1 h1)))
   \<and> fst (get_cn_models_body d1 h1)
       = map (format_name h1) (fst (scan_model_paths h1 (get_cn_model_dirs d1 h1)))
   \<and> (is_file h1 = is_file h2 \<and> model_hash h1 = model_hash h2
        \<and> str_lower h1 = str_lower h2
        \<and> name_filter_of h1 = name_filter_of h2
        \<and> mset (listing h1 (get_cn_model_dirs d1 h1)) = mset (listing h2 (get_cn_model_dirs d2 h2))
        \<and> (\<forall>p\<in>set (listing h1 (get_cn_model_dirs d1 h1)).
              \<forall>q\<in>set (listing h1 (get_cn_model_dirs d1 h1)).
                kept h1 p \<and> kept h1 q \<and> path_name p = path_name q
                \<longrightarrow> model_hash h1 p = model_hash h1 q)
      \<longrightarrow> fst (get_cn_models_body d1 h1) = fst (get_cn_models_body d2 h2))"
proof -
  let ?l1 = "listing h1 (get_cn_model_dirs d1 h1)"
  let ?l2 = "listing h2 (get_cn_model_dirs d2 h2)"
  have srt: "sorted (map path_name (fst (scan_model_paths h1 (get_cn_model_dirs d1 h1))))"
    by (simp add: scan_model_paths_eq)
  have stable: "\<forall>n. filter (\<lambda>p. path_name p = n)
                       (fst (scan_model_paths h1 (get_cn_model_dirs d1 h1)))
                  = filter (\<lambda>p. path_name p = n) (filter (kept h1) ?l1)"
    by (simp only: scan_model_paths_eq fst_conv sort_key_stable simp_thms)
  have perm: "mset (fst (scan_model_paths h1 (get_cn_model_dirs d1 h1)))
                = mset (filter (kept h1) ?l1)"
    by (simp add: scan_model_paths_eq)
  have cat: "fst (get_cn_models_body d1 h1)
               = map (format_name h1) (fst (scan_model_paths h1 (get_cn_model_dirs d1 h1)))"
    by (simp add: get_cn_models_body_eq scan_model_paths_eq)
  have det: "fst (get_cn_models_body d1 h1) = fst (get_cn_models_body d2 h2)"
    if f: "is_file h1 = is_file h2" and mh: "model_hash h1 = model_hash h2"
      and sl: "str_lower h1 = str_lower h2"
      and nf: "name_filter_of h1 = name_filter_of h2"
      and ms: "mset ?l1 = mset ?l2"
      and same: "\<forall>p\<in>set ?l1. \<forall>q\<in>set ?l1.
                   kept h1 p \<and> kept h1 q \<and> path_name p = path_name q
                   \<longrightarrow> model_hash h1 p = model_hash h1 q"
  proof -
    have k: "kept h2 = kept h1"
      using f nf sl by (rule_tac ext) (simp add: kept_def)
    have fm: "format_name h2 = format_name h1"
      using mh by (rule_tac ext) (simp add: format_name_def)
    have m: "mset (filter (kept h1) ?l1) = mset (filter (kept h1) ?l2)"
      using ms by (simp only: mset_filter)
    have s: "\<forall>p\<in>set (filter (kept h1) ?l1). \<forall>q\<in>set (filter (kept h1) ?l1).
               path_name p = path_name q \<longrightarrow> model_hash h1 p = model_hash h1 q"
      using same by simp
    from catalog_determined [OF m s]
    show ?thesis by (simp add: get_cn_models_body_eq k fm)
  qed
  from srt stable perm cat det show ?thesis by blast
qed

theorem catalog_sorted_and_determined_witness:
  "mset (listing (disk_host ''a'' ''b'' distinct_name_files)
           (get_cn_model_dirs found_discovery (disk_host ''a'' ''b'' distinct_name_files)))
   = mset (listing (disk_host ''b'' ''a'' distinct_name_files)
           (get_cn_model_dirs found_discovery (disk_host ''b'' ''a'' distinct_name_files)))
   \<and> listing (disk_host ''a'' ''b'' distinct_name_files)
           (get_cn_model_dirs found_discovery (disk_host ''a'' ''b'' distinct_name_files))
       \<noteq> listing (disk_host ''b'' ''a'' distinct_name_files)
           (get_cn_model_dirs found_discovery (disk_host ''b'' ''a'' distinct_name_files))
   \<and> fst (get_cn_models_body found_discovery (disk_host ''a'' ''b'' distinct_name_files))
       = fst (get_cn_models_body found_discovery (disk_host ''b'' ''a'' distinct_name_files))
   \<and> filter (\<lambda>p. path_name p = ''depth.pt'')
        (fst (scan_model_paths (disk_host ''a'' ''b'' same_name_files)
           (get_cn_model_dirs found_discovery (disk_host ''a'' ''b'' same_name_files))))
       = [[''a'', ''depth.pt''], [''b'', ''depth.pt'']]"
proof -
  let ?h1 = "disk_host ''a'' ''b'' distinct_name_files"
  let ?h2 = "disk_host ''b'' ''a'' distinct_name_files"
  let ?h3 = "disk_host ''a'' ''b'' same_name_files"
  have f: "is_file ?h1 = is_file ?h2" by (simp add: disk_host_def)
  have mh: "model_hash ?h1 = model_hash ?h2" by (simp add: disk_host_def)
  have sl: "str_lower ?h1 = str_lower ?h2" by (simp add: disk_host_def)
  have nf: "name_filter_of ?h1 = name_filter_of ?h2"
    by (simp add: name_filter_of_def opts_get_def disk_host_def)
  have ms: "mset (listing ?h1 (get_cn_model_dirs found_discovery ?h1))
              = mset (listing ?h2 (get_cn_model_dirs found_discovery ?h2))"
    by (simp add: distinct_listing_ab distinct_listing_ba)
  have ne: "listing ?h1 (get_cn_model_dirs found_discovery ?h1)
              \<noteq> listing ?h2 (get_cn_model_dirs found_discovery ?h2)"
    by (simp add: distinct_listing_ab distinct_listing_ba)
  have same: "\<forall>p\<in>set (listing ?h1 (get_cn_model_dirs found_discovery ?h1)).
                \<forall>q\<in>set (listing ?h1 (get_cn_model_dirs found_discovery ?h1)).
                  kept ?h1 p \<and> kept ?h1 q \<and> path_name p = path_name q
                  \<longrightarrow> model_hash ?h1 p = model_hash ?h1 q"
    by (simp add: distinct_listing_ab path_name_def)
  from catalog_sorted_and_determined [of ?h1 found_discovery ?h2 found_discovery]
    f mh sl nf ms same
  have eq: "fst (get_cn_models_body found_discovery ?h1)
              = fst (get_cn_models_body found_discovery ?h2)"
    by blast
  from catalog_sorted_and_determined [of ?h3 found_discovery ?h3 found_discovery]
  have "filter (\<lambda>p. path_name p = ''depth.pt'')
          (fst (scan_model_paths ?h3 (get_cn_model_dirs found_discovery ?h3)))
        = filter (\<lambda>p. path_name p = ''depth.pt'')
            (filter (kept ?h3) (listing ?h3 (get_cn_model_dirs found_discovery ?h3)))"
    by blast
  then have st: "filter (\<lambda>p. path_name p = ''depth.pt'')
          (fst (scan_model_paths ?h3 (get_cn_model_dirs found_discovery ?h3)))
        = [[''a'', ''depth.pt''], [''b'', ''depth.pt'']]"
    by (simp add: same_name_listing_ab depth_pt_kept path_name_def)
  from ms ne eq st show ?thesis by (intro conjI)
qed

subsection \<open>C9: memoization\<close>

text \<open>
  Claim C9: in a sequence of calls of the scanner that starts with an empty cache, the
  first call runs the scan, and every later call returns the catalog of the first call
  and makes no access to the file system, whatever the host's files and settings are by
  then. Once the cache is filled, a call returns its content and leaves it as it is.
\<close>

theorem scanner_memoized:
  "calls_cached ((disc, h) # later) None
     = get_cn_models_body disc h # map (\<lambda>c. (fst (get_cn_models_body disc h), [])) later
   \<and> calls_cached calls (Some models) = map (\<lambda>c. (models, [])) calls
   \<and> get_cn_models_cached disc h (Some models) = (models, [], Some models)
   \<and> snd (snd (get_cn_models_cached disc h None)) = Some (fst (get_cn_models_body disc h))"
  by (simp add: calls_cached_Some get_cn_models_cached_def split: prod.splits)

theorem scanner_memoized_witness:
  "calls_cached [(found_discovery, disk_host ''a'' ''b'' example_files),
                 (found_discovery, disk_host ''a'' ''b'' same_name_files),
                 (no_discovery, disk_host ''b'' ''a'' distinct_name_files)] None
   = [get_cn_models_body found_discovery (disk_host ''a'' ''b'' example_files),
      (fst (get_cn_models_body found_discovery (disk_host ''a'' ''b'' example_files)), []),
      (fst (get_cn_models_body found_discovery (disk_host ''a'' ''b'' example_files)), [])]"
  using scanner_memoized [of found_discovery "disk_host ''a'' ''b'' example_files"
      "[(found_discovery, disk_host ''a'' ''b'' same_name_files),
        (no_discovery, disk_host ''b'' ''a'' distinct_name_files)]"]
  by simp

subsection \<open>C10: the handle is there when the adapter is available\<close>

text \<open>
  Claim C10: \<^verbatim>\<open>cn_available\<close> implies that \<^verbatim>\<open>external_cn\<close> is not \<^verbatim>\<open>None\<close>. The
  invariant holds after \<^verbatim>\<open>__init__\<close>, is preserved by every method, and so holds after
  any sequence of method calls. \<^verbatim>\<open>cn_available\<close> is never reset; it becomes true only
  in \<^verbatim>\<open>init_controlnet\<close>, after the import has returned the module that is then the
  handle. Under the invariant, a call of \<^verbatim>\<open>update_scripts_args\<close> that passes the
  availability guard never reads an attribute of \<^verbatim>\<open>None\<close>: an \<^verbatim>\<open>AttributeError\<close> of
  that kind can only come out of the neighbour's merge function, after the unit was
  built.
\<close>

theorem handle_invariant_preserved:
  "handle_invariant (ControlNetExt_init :: 'z processing_scheme ControlNetExt)
   \<and> (handle_invariant (self :: 'z processing_scheme ControlNetExt)
        \<longrightarrow> handle_invariant (apply_op import_module base self op))
   \<and> handle_invariant (foldl (apply_op import_module base) ControlNetExt_init ops)
   \<and> (cn_available self \<longrightarrow> cn_available (apply_op import_module base self op))
   \<and> (\<not> cn_available self \<and> cn_available (apply_op import_module base self op)
        \<longrightarrow> op = Op_init_controlnet
            \<and> (\<exists>m. import_module (base @ ''.scripts.external_code'') ''external_code'' = Inr m
                   \<and> external_cn (apply_op import_module base self op) = Some m))
   \<and> (handle_invariant self \<and> cn_available self \<longrightarrow> external_cn self \<noteq> None)
   \<and> (handle_invariant self \<and> cn_available self
        \<and> update_scripts_args self p model module w gs ge input_image
             = (Some (none_has_no_attribute a), p1, calls)
        \<longrightarrow> calls \<noteq> [])"
proof -
  have init: "handle_invariant (ControlNetExt_init :: 'z processing_scheme ControlNetExt)"
    by (simp add: handle_invariant_def ControlNetExt_init_def)
  then have reach: "handle_invariant (foldl (apply_op import_module base) ControlNetExt_init ops)"
    by (rule foldl_apply_op_invariant)
  show ?thesis
    using init reach apply_op_invariant [of self import_module base op]
      apply_op_available_mono [of self import_module base op]
      apply_op_becomes_available [of self import_module base op]
      none_attribute_error_from_merge [of self p model module w gs ge input_image a p1 calls]
    by (simp add: handle_invariant_def)
qed

theorem handle_invariant_preserved_witness:
  "\<not> cn_available (ControlNetExt_init :: processing ControlNetExt)
   \<and> cn_available (apply_op working_import ''extensions.sd-webui-controlnet''
                    ControlNetExt_init Op_init_controlnet)
   \<and> external_cn (apply_op working_import ''extensions.sd-webui-controlnet''
                    ControlNetExt_init Op_init_controlnet) = Some appending_cn
   \<and> cn_models (apply_op working_import ''extensions.sd-webui-controlnet''
                    ControlNetExt_init Op_init_controlnet)
       = [''None'', ''control_v11f1p_sd15_depth'']
   \<and> handle_invariant (apply_op working_import ''extensions.sd-webui-controlnet''
                    ControlNetExt_init Op_init_controlnet)"
proof -
  have a: "apply_op working_import ''extensions.sd-webui-controlnet''
             ControlNetExt_init Op_init_controlnet
           = \<lparr>cn_models = [''None'', ''control_v11f1p_sd15_depth''], cn_available = True,
              external_cn = Some appending_cn\<rparr>"
    by (simp add: init_controlnet_def working_import_def ControlNetExt_init_def Let_def
        appending_cn_def cn_model_regex_search_def cn_model_module_def)
  have i: "handle_invariant (ControlNetExt_init :: processing ControlNetExt)"
    using handle_invariant_preserved by blast
  have "handle_invariant (apply_op working_import ''extensions.sd-webui-controlnet''
                    ControlNetExt_init Op_init_controlnet)"
    using handle_invariant_preserved [of "ControlNetExt_init :: processing ControlNetExt"
        working_import "''extensions.sd-webui-controlnet''" Op_init_controlnet] i
    by blast
  then show ?thesis
    by (simp only: a) (simp add: ControlNetExt_init_def)
qed

end
